theory Spec2Isabelle
  imports Main "HOL-Library.Sublist" "HOL-Library.Word"
begin

section \<open>Values handled by the transcription manager\<close>

text \<open>
  The program is \<^verbatim>\<open>src/app.py\<close>: a \<^verbatim>\<open>TranscriptionManager\<close> object whose methods are
  called by the websocket library (\<^verbatim>\<open>on_open\<close>, \<^verbatim>\<open>on_message\<close>, \<^verbatim>\<open>on_error\<close>,
  \<^verbatim>\<open>on_close\<close>) and by the user interface (\<^verbatim>\<open>start_transcription\<close>).
  Each method is embedded as a function from the object's fields before the call to the
  fields after it. What the libraries and the clock return (\<^verbatim>\<open>json.loads\<close>,
  \<^verbatim>\<open>time.time\<close>, \<^verbatim>\<open>pyaudio\<close>, \<^verbatim>\<open>wave\<close>) is an argument of the embedded function.
  Every method is modelled as one uninterrupted run: the interleaving of the capture
  thread with the callbacks is outside the model. \<^verbatim>\<open>stop_transcription\<close> and the
  Streamlit script (lines 202-276) are not embedded: they play no part in the properties
  proved below.
\<close>

text \<open>
  A Python \<^verbatim>\<open>float\<close> is an IEEE 754 binary64 value: \<open>Finite m e\<close> stands for the
  number \<open>m * 2 ^ e\<close>, and the other three are the infinities and the value that is not
  a number. A double has \<open>\<bar>m\<bar> < 2 ^ 53\<close> and \<open>- 1074 \<le> e\<close>, and is below \<open>2 ^ 1024\<close> in
  magnitude; \<open>0.1\<close> is \<open>Finite 3602879701896397 (- 55)\<close> and \<open>2.1\<close> is
  \<open>Finite 4728779608739021 (- 51)\<close>. The sign of a zero is not kept: nothing modelled
  here tells the two zeros apart.
\<close>

datatype pyfloat = Finite int int | PosInfinity | NegInfinity | NaN

text \<open>The number of binary digits of a positive integer.\<close>

function bit_length :: "int \<Rightarrow> nat" where
  "bit_length n = (if n \<le> 0 then 0 else Suc (bit_length (n div 2)))"
  by pat_completeness auto
termination
  by (relation "measure nat") auto

declare bit_length.simps [simp del]

text \<open>
  The double nearest to \<open>m * 2 ^ e\<close>, ties going to the even significand, as the
  hardware rounds the exact result of an operation: a significand of more than 53
  digits loses its low digits, and a result of magnitude \<open>2 ^ 1024\<close> or more becomes
  an infinity. The exact difference of two doubles is a multiple of \<open>2 ^ - 1074\<close>, so
  no result here is rounded below the smallest exponent.
\<close>

definition round_double :: "int \<Rightarrow> int \<Rightarrow> pyfloat" where
  "round_double m e =
     (let k = int (bit_length \<bar>m\<bar>) - 53;
          q0 = \<bar>m\<bar> div 2 ^ nat k;
          r = \<bar>m\<bar> mod 2 ^ nat k;
          half = 2 ^ nat (k - 1);
          q = (if k \<le> 0 then \<bar>m\<bar>
               else if half < r \<or> (r = half \<and> odd q0) then q0 + 1
               else q0);
          e' = (if k \<le> 0 then e else e + k)
      in if 0 \<le> e' \<and> 2 ^ 1024 \<le> q * 2 ^ nat e' then
           (if m < 0 then NegInfinity else PosInfinity)
         else Finite (if m < 0 then - q else q) e')"

text \<open>
  \<^verbatim>\<open>x - y\<close> on floats: the exact difference of two finite values, rounded; the
  special values as IEEE 754 has them.
\<close>

fun float_sub :: "pyfloat \<Rightarrow> pyfloat \<Rightarrow> pyfloat" where
  "float_sub (Finite m1 e1) (Finite m2 e2) =
     (let e = min e1 e2
      in round_double (m1 * 2 ^ nat (e1 - e) - m2 * 2 ^ nat (e2 - e)) e)"
| "float_sub NaN y = NaN"
| "float_sub x NaN = NaN"
| "float_sub PosInfinity PosInfinity = NaN"
| "float_sub NegInfinity NegInfinity = NaN"
| "float_sub PosInfinity y = PosInfinity"
| "float_sub NegInfinity y = NegInfinity"
| "float_sub x PosInfinity = NegInfinity"
| "float_sub x NegInfinity = PosInfinity"

text \<open>\<^verbatim>\<open>x > y\<close> on floats; every comparison with the value that is not a number is false.\<close>

fun float_gt :: "pyfloat \<Rightarrow> pyfloat \<Rightarrow> bool" where
  "float_gt (Finite m1 e1) (Finite m2 e2) =
     (let e = min e1 e2 in m2 * 2 ^ nat (e2 - e) < m1 * 2 ^ nat (e1 - e))"
| "float_gt NaN y = False"
| "float_gt x NaN = False"
| "float_gt PosInfinity PosInfinity = False"
| "float_gt PosInfinity y = True"
| "float_gt x PosInfinity = False"
| "float_gt NegInfinity y = False"
| "float_gt x NegInfinity = True"

declare float_sub.simps [simp del] float_gt.simps [simp del]

text \<open>
  The values \<^verbatim>\<open>json.loads\<close> returns. A \<^verbatim>\<open>dict\<close> is its list of items; a key is
  looked up with \<open>map_of\<close>.
\<close>

datatype json =
    JNull
  | JBool bool
  | JInt int
  | JFloat pyfloat
  | JStr string
  | JArr "json list"
  | JObj "(string \<times> json) list"

text \<open>Python's truth value of such a value, as \<^verbatim>\<open>if x:\<close> tests it.\<close>

fun truthy :: "json \<Rightarrow> bool" where
  "truthy JNull = False"
| "truthy (JBool b) = b"
| "truthy (JInt n) = (n \<noteq> 0)"
| "truthy (JFloat x) = (case x of Finite m e \<Rightarrow> m \<noteq> 0 | _ \<Rightarrow> True)"
| "truthy (JStr t) = (t \<noteq> [])"
| "truthy (JArr xs) = (xs \<noteq> [])"
| "truthy (JObj kv) = (kv \<noteq> [])"

text \<open>\<^verbatim>\<open>d.get(k, dflt)\<close> on a dict.\<close>

definition py_get :: "(string \<times> json) list \<Rightarrow> string \<Rightarrow> json \<Rightarrow> json" where
  "py_get d k dflt = (case map_of d k of None \<Rightarrow> dflt | Some v \<Rightarrow> v)"

text \<open>
  The exceptions of the modelled code: \<^verbatim>\<open>AttributeError\<close> (\<^verbatim>\<open>.get\<close> on a value that is
  not a dict), \<^verbatim>\<open>TypeError\<close> (\<^verbatim>\<open>str + x\<close> for an \<open>x\<close> that is not a \<^verbatim>\<open>str\<close>), and
  an exception raised inside a library call, with its text.
\<close>

datatype py_error = AttributeError | TypeError | Raised string

text \<open>The lines the modelled methods print, in the order printed.\<close>

datatype log_line =
    WebSocketOpened
  | ErrorStreamingAudio py_error
  | SessionBegan json
  | SessionTerminated
  | ErrorHandlingMessage py_error
  | WebSocketDisconnected json
  | AudioSavedTo string
  | ErrorSavingWAV py_error

text \<open>The values assigned to \<^verbatim>\<open>self.status\<close>.\<close>

datatype status =
    Detenido
  | ConectadoGrabando
  | ErrorStatus py_error
  | DesconectadoArchivoGuardado
  | IniciandoConexion
  | ErrorMicrofono py_error
  | Deteniendo

datatype pyaudio = PyAudio
datatype input_stream = InputStream
datatype ws_app = WebSocketApp
datatype thread = StreamAudioThread | RunForeverThread

type_synonym bytes = "8 word list"

definition SAMPLE_RATE :: nat where "SAMPLE_RATE = 16000"
definition CHANNELS :: nat where "CHANNELS = 1"

text \<open>What \<^verbatim>\<open>save_wav_file\<close> hands to the \<^verbatim>\<open>wave\<close> writer for one file.\<close>

record wav_file =
  filename :: string
  nchannels :: nat
  sampwidth :: nat
  framerate :: nat
  frames :: bytes

text \<open>
  The fields of \<^verbatim>\<open>TranscriptionManager\<close>, in the order \<^verbatim>\<open>__init__\<close> assigns them
  (\<^verbatim>\<open>recording_lock\<close> has no content in a sequential model). Timestamps are the
  floats of \<^verbatim>\<open>time.time()\<close>; \<^verbatim>\<open>__init__\<close> assigns the integer \<^verbatim>\<open>0\<close> to
  \<^verbatim>\<open>last_final_time\<close>, which the subtraction at line 101 converts to the float zero,
  so the field holds the float zero from the start. \<^verbatim>\<open>partial_text\<close> holds whatever the
  \<^verbatim>\<open>transcript\<close> field of a message held, so it is a decoded value, not a string;
  \<^verbatim>\<open>committed_text\<close> and \<^verbatim>\<open>transcript_text\<close> are only ever assigned the result of
  a string concatenation.

  The last three fields are not fields of the object. They record the effects of the
  methods on the world: the lines printed, the audio files completely written, and the
  threads started.
\<close>

record manager =
  audio :: "pyaudio option"
  stream :: "input_stream option"
  ws_app :: "ws_app option"
  audio_thread :: "thread option"
  ws_thread :: "thread option"
  stop_event :: bool
  recorded_frames :: "bytes list"
  committed_text :: string
  partial_text :: json
  transcript_text :: string
  last_final_time :: pyfloat
  status :: status
  is_running :: bool
  stdout :: "log_line list"
  saved_wavs :: "wav_file list"
  spawned :: "thread list"

text \<open>\<^verbatim>\<open>__init__\<close> (lines 36-53), in a world where nothing has been printed or written.\<close>

definition init :: manager where
  "init = \<lparr> audio = None, stream = None, ws_app = None, audio_thread = None,
     ws_thread = None, stop_event = False, recorded_frames = [],
     committed_text = [], partial_text = JStr [], transcript_text = [],
     last_final_time = Finite 0 0, status = Detenido, is_running = False,
     stdout = [], saved_wavs = [], spawned = [] \<rparr>"

section \<open>The message handler\<close>

text \<open>
  Lines 117-119: the text shown is rebuilt from \<^verbatim>\<open>committed_text\<close> and
  \<^verbatim>\<open>partial_text\<close>. The concatenation raises \<^verbatim>\<open>TypeError\<close> when \<^verbatim>\<open>partial_text\<close>
  is not a string. The result is the state reached and the exception raised, if any.
\<close>

definition rebuild :: "manager \<Rightarrow> manager \<times> py_error option" where
  "rebuild s =
     (let separator_partial =
            (if committed_text s \<noteq> [] \<and> truthy (partial_text s) then '' '' else [])
      in case partial_text s of
           JStr p \<Rightarrow>
             (s\<lparr>transcript_text := committed_text s @ separator_partial @ p\<rparr>, None)
         | _ \<Rightarrow> (s, Some TypeError))"

text \<open>
  Lines 94-119, the branch for \<^verbatim>\<open>msg_type == "Turn"\<close>; \<open>now\<close> is what
  \<^verbatim>\<open>time.time()\<close> returns at line 99. The silence is the float difference of line 101
  and the test of line 107 compares it with the float \<^verbatim>\<open>2.0\<close>. On line 110 \<^verbatim>\<open>separator + transcript\<close> raises
  \<^verbatim>\<open>TypeError\<close> before anything is assigned when \<^verbatim>\<open>transcript\<close> is not a string.
\<close>

definition on_turn :: "manager \<Rightarrow> (string \<times> json) list \<Rightarrow> pyfloat \<Rightarrow> manager \<times> py_error option" where
  "on_turn s data now =
     (let transcript = py_get data ''transcript'' (JStr []);
          is_final = py_get data ''turn_is_formatted'' (JBool False)
      in if truthy is_final then
           (if truthy transcript then
              (let current_time = now;
                   silence_duration = float_sub current_time (last_final_time s);
                   separator =
                     (if committed_text s = [] then []
                      else if float_gt silence_duration (Finite 2 0) then [CHR 0x0A, CHR 0x0A]
                      else '' '')
               in case transcript of
                    JStr t \<Rightarrow>
                      rebuild (s\<lparr>committed_text := committed_text s @ separator @ t,
                                 last_final_time := current_time,
                                 partial_text := JStr []\<rparr>)
                  | _ \<Rightarrow> (s, Some TypeError))
            else rebuild (s\<lparr>partial_text := JStr []\<rparr>))
         else rebuild (s\<lparr>partial_text := transcript\<rparr>))"

text \<open>
  Lines 85-122, the body of the \<^verbatim>\<open>try\<close>. \<open>loaded\<close> is what \<^verbatim>\<open>json.loads(message)\<close>
  does: it raises, or returns a value. \<^verbatim>\<open>data.get\<close> raises \<^verbatim>\<open>AttributeError\<close> when
  that value is not a dict.
\<close>

definition on_message_try :: "manager \<Rightarrow> py_error + json \<Rightarrow> pyfloat \<Rightarrow> manager \<times> py_error option" where
  "on_message_try s loaded now =
     (case loaded of
        Inl e \<Rightarrow> (s, Some e)
      | Inr (JObj data) \<Rightarrow>
          (let msg_type = py_get data ''type'' JNull
           in if msg_type = JStr ''Begin'' then
                (s\<lparr>stdout := stdout s @ [SessionBegan (py_get data ''id'' JNull)],
                   last_final_time := now\<rparr>, None)
              else if msg_type = JStr ''Turn'' then on_turn s data now
              else if msg_type = JStr ''Termination'' then
                (s\<lparr>stdout := stdout s @ [SessionTerminated]\<rparr>, None)
              else (s, None))
      | Inr _ \<Rightarrow> (s, Some AttributeError))"

text \<open>
  \<^verbatim>\<open>on_message\<close> (lines 83-125): the \<^verbatim>\<open>except\<close> clause prints the exception and the
  method returns normally.
\<close>

definition on_message :: "manager \<Rightarrow> py_error + json \<Rightarrow> pyfloat \<Rightarrow> manager" where
  "on_message s loaded now =
     (case on_message_try s loaded now of
        (s', None) \<Rightarrow> s'
      | (s', Some e) \<Rightarrow> s'\<lparr>stdout := stdout s' @ [ErrorHandlingMessage e]\<rparr>)"

text \<open>
  The receive activity over a whole session: the messages of the connection, each with
  the clock reading at its arrival, handled one after the other.
\<close>

fun on_messages :: "manager \<Rightarrow> ((py_error + json) \<times> pyfloat) list \<Rightarrow> manager" where
  "on_messages s [] = s"
| "on_messages s ((loaded, now) # ms) = on_messages (on_message s loaded now) ms"

section \<open>Audio capture and the recorded file\<close>

text \<open>
  \<^verbatim>\<open>on_open\<close> (lines 55-81): it prints, sets the status and starts the capture thread.
\<close>

definition on_open :: "manager \<Rightarrow> manager" where
  "on_open s =
     s\<lparr>stdout := stdout s @ [WebSocketOpened],
       status := ConectadoGrabando,
       audio_thread := Some StreamAudioThread,
       spawned := spawned s @ [StreamAudioThread]\<rparr>"

text \<open>
  One pass through the body of the capture loop (lines 64-76), entered when
  \<^verbatim>\<open>stop_event\<close> is not set. \<open>rd\<close> is what \<^verbatim>\<open>self.stream.read\<close> does and \<open>snd_err\<close>
  what \<^verbatim>\<open>ws.send\<close> does (\<open>None\<close>: it returns). The chunk is appended to
  \<^verbatim>\<open>recorded_frames\<close> before it is sent. The second component tells whether the loop
  goes on (\<open>False\<close> after \<^verbatim>\<open>break\<close>).
\<close>

definition stream_audio_iter :: "manager \<Rightarrow> py_error + bytes \<Rightarrow> py_error option \<Rightarrow> manager \<times> bool" where
  "stream_audio_iter s rd snd_err =
     (if stream s = None then (s, True)
      else case rd of
             Inl e \<Rightarrow> (s\<lparr>stdout := stdout s @ [ErrorStreamingAudio e]\<rparr>, False)
           | Inr audio_data \<Rightarrow>
               (let s1 = s\<lparr>recorded_frames := recorded_frames s @ [audio_data]\<rparr>
                in case snd_err of
                     None \<Rightarrow> (s1, True)
                   | Some e \<Rightarrow> (s1\<lparr>stdout := stdout s1 @ [ErrorStreamingAudio e]\<rparr>, False)))"

text \<open>
  What the \<^verbatim>\<open>wave\<close> writer does inside the \<^verbatim>\<open>try\<close> of \<^verbatim>\<open>save_wav_file\<close>: the file is
  written, or \<^verbatim>\<open>wave.open\<close> raises, or a later call on the open file raises.
\<close>

datatype wave_outcome = WaveOk | WaveOpenFails py_error | WaveWriteFails py_error

text \<open>
  \<^verbatim>\<open>save_wav_file\<close> (lines 137-157). \<open>timestamp\<close> is the text of
  \<^verbatim>\<open>datetime.now().strftime("%Y%m%d_%H%M%S")\<close>. The buffer is reset inside the
  \<^verbatim>\<open>try\<close>, after the file is written and the confirmation printed; the \<^verbatim>\<open>except\<close>
  clause only prints. \<open>saved_wavs\<close> lists the files written completely: what a failed
  attempt leaves on disk is not tracked.
\<close>

definition save_wav_file :: "manager \<Rightarrow> string \<Rightarrow> wave_outcome \<Rightarrow> manager" where
  "save_wav_file s timestamp outcome =
     (if recorded_frames s = [] then s
      else
        (let name = ''recorded_audio_'' @ timestamp @ ''.wav''
         in case outcome of
              WaveOk \<Rightarrow>
                s\<lparr>saved_wavs := saved_wavs s @
                     [\<lparr>filename = name, nchannels = CHANNELS, sampwidth = 2,
                       framerate = SAMPLE_RATE, frames = concat (recorded_frames s)\<rparr>],
                  stdout := stdout s @ [AudioSavedTo name],
                  recorded_frames := []\<rparr>
            | WaveOpenFails e \<Rightarrow> s\<lparr>stdout := stdout s @ [ErrorSavingWAV e]\<rparr>
            | WaveWriteFails e \<Rightarrow> s\<lparr>stdout := stdout s @ [ErrorSavingWAV e]\<rparr>))"

text \<open>\<^verbatim>\<open>on_error\<close> (lines 127-129).\<close>

definition on_error :: "manager \<Rightarrow> py_error \<Rightarrow> manager" where
  "on_error s error = s\<lparr>status := ErrorStatus error, stop_event := True\<rparr>"

text \<open>\<^verbatim>\<open>on_close\<close> (lines 131-135); \<open>code\<close> is the close status code it prints.\<close>

definition on_close :: "manager \<Rightarrow> json \<Rightarrow> string \<Rightarrow> wave_outcome \<Rightarrow> manager" where
  "on_close s code timestamp outcome =
     (let s1 = save_wav_file (s\<lparr>stdout := stdout s @ [WebSocketDisconnected code]\<rparr>)
                 timestamp outcome
      in s1\<lparr>is_running := False, status := DesconectadoArchivoGuardado\<rparr>)"

section \<open>Starting a session\<close>

text \<open>
  What the audio library does in \<^verbatim>\<open>start_transcription\<close>: the constructor
  \<^verbatim>\<open>pyaudio.PyAudio()\<close> (line 173, outside the \<^verbatim>\<open>try\<close>) raises, or
  \<^verbatim>\<open>self.audio.open\<close> (lines 175-181, inside it) raises, or the device is opened.
\<close>

datatype device_outcome = PyAudioFails py_error | OpenFails py_error | OpenOk

text \<open>
  \<^verbatim>\<open>start_transcription\<close> (lines 159-200); \<open>now\<close> is \<^verbatim>\<open>time.time()\<close> at line 168.
  The second component is the exception that leaves the method, if any: only the
  constructor at line 173 can raise past it, and the assignments before it stay.
\<close>

definition start_transcription :: "manager \<Rightarrow> pyfloat \<Rightarrow> device_outcome \<Rightarrow> manager \<times> py_error option" where
  "start_transcription s now dev =
     (if is_running s then (s, None)
      else
        (let s1 = s\<lparr>stop_event := False,
                    committed_text := [],
                    partial_text := JStr [],
                    transcript_text := [],
                    recorded_frames := [],
                    last_final_time := now,
                    is_running := True,
                    status := IniciandoConexion\<rparr>
         in case dev of
              PyAudioFails e \<Rightarrow> (s1, Some e)
            | OpenFails e \<Rightarrow>
                (s1\<lparr>audio := Some PyAudio,
                    status := ErrorMicrofono e,
                    is_running := False\<rparr>, None)
            | OpenOk \<Rightarrow>
                (s1\<lparr>audio := Some PyAudio,
                    stream := Some InputStream,
                    ws_app := Some WebSocketApp,
                    ws_thread := Some RunForeverThread,
                    spawned := spawned s1 @ [RunForeverThread]\<rparr>, None)))"

text \<open>
  The display text as the specification words it (section 4.2, \<^verbatim>\<open>displayText()\<close>):
  both parts joined by a space when both are non-empty, otherwise whichever is
  non-empty. It is compared below with what \<open>rebuild\<close> stores.
\<close>

definition displayText :: "string \<Rightarrow> string \<Rightarrow> string" where
  "displayText committed partial =
     (if committed \<noteq> [] \<and> partial \<noteq> [] then committed @ '' '' @ partial
      else if committed \<noteq> [] then committed
      else partial)"

text \<open>
  A \<^verbatim>\<open>Turn\<close> message as the service sends it, already decoded:
  \<^verbatim>\<open>{"type": "Turn", "transcript": tx, "turn_is_formatted": formatted}\<close>. The message
  is a final when \<open>formatted\<close> holds and a partial otherwise.
\<close>

definition turn_message :: "string \<Rightarrow> bool \<Rightarrow> py_error + json" where
  "turn_message tx formatted =
     Inr (JObj [(''type'', JStr ''Turn''), (''transcript'', JStr tx),
                (''turn_is_formatted'', JBool formatted)])"

section \<open>Finals are committed with a separator chosen by the silence\<close>

lemmas handler_defs =
  on_message_def on_message_try_def on_turn_def rebuild_def py_get_def Let_def

text \<open>
  A difference whose significand has at most 53 digits, and which is in range, is not
  rounded: there the float difference is the exact one.
\<close>

lemma round_double_exact:
  assumes "bit_length \<bar>m\<bar> \<le> 53" and "e < 0 \<or> \<bar>m\<bar> * 2 ^ nat e < 2 ^ 1024"
  shows "round_double m e = Finite m e"
proof -
  have k: "int (bit_length \<bar>m\<bar>) - 53 \<le> 0" using assms(1) by simp
  have m: "(if m < 0 then - \<bar>m\<bar> else \<bar>m\<bar>) = m" by simp
  have no: "\<not> (0 \<le> e \<and> (2::int) ^ 1024 \<le> \<bar>m\<bar> * 2 ^ nat e)"
    using assms(2) by auto
  show ?thesis
    unfolding round_double_def Let_def
    by (simp only: k if_True no if_False m)
qed

text \<open>
  The silences of the examples below, computed on floats. The last one is a rounded
  difference: between the doubles \<open>0.1\<close> and \<open>2.1\<close> the exact distance is
  \<open>2 + 3 / 2 ^ 55\<close>, the float difference is \<open>2.0\<close>, and the test of line 107 is false.
\<close>

lemma silence_of_one: "\<not> float_gt (float_sub (Finite 1 0) (Finite 0 0)) (Finite 2 0)"
  by code_simp

lemma silence_of_three: "float_gt (float_sub (Finite 3 0) (Finite 0 0)) (Finite 2 0)"
  by code_simp

lemma silence_of_two_and_a_half:
  "float_gt (float_sub (Finite 25 (- 1)) (Finite 10 0)) (Finite 2 0)"
  by code_simp

lemma silence_rounded_to_two:
  "float_sub (Finite 4728779608739021 (- 51)) (Finite 3602879701896397 (- 55)) =
     Finite 4503599627370496 (- 51)"
  "\<not> float_gt (Finite 4503599627370496 (- 51)) (Finite 2 0)"
  by code_simp+

lemmas float_facts =
  silence_of_one silence_of_three silence_of_two_and_a_half silence_rounded_to_two

text \<open>So a final at \<open>2.1\<close> after one at \<open>0.1\<close> is joined by a space.\<close>

lemma final_after_rounded_silence:
  "committed_text
     (on_message
        (on_message init (turn_message ''hello'' True) (Finite 3602879701896397 (- 55)))
        (turn_message ''world'' True) (Finite 4728779608739021 (- 51))) = ''hello world''"
  by (simp add: handler_defs turn_message_def init_def float_facts)

text \<open>
  Claim C1. A final \<^verbatim>\<open>Turn\<close> (its \<^verbatim>\<open>turn_is_formatted\<close> is true) with a non-empty
  transcript \<open>tx\<close>, handled at time \<open>now\<close>, appends exactly \<open>separator @ tx\<close> to
  \<^verbatim>\<open>committed_text\<close>, where the separator is empty when nothing is committed yet, two
  newlines when \<open>now - last_final_time\<close>, computed as the program computes it on floats,
  is greater than \<open>2.0\<close>, and one space otherwise; \<^verbatim>\<open>last_final_time\<close> becomes \<open>now\<close>.
  Nothing else changes but the draft, which is emptied, and the text shown, which is
  the committed text. From the initial state, the finals "hello" at 0 and "world" at 1
  commit "hello world", and with "world" at 3 they commit "hello", two newlines,
  "world".
\<close>

theorem final_nonempty_appends:
  "(\<forall>s data tx now.
      map_of data ''type'' = Some (JStr ''Turn'') \<and>
      map_of data ''transcript'' = Some (JStr tx) \<and> tx \<noteq> [] \<and>
      truthy (py_get data ''turn_is_formatted'' (JBool False)) \<longrightarrow>
      on_message s (Inr (JObj data)) now =
        (let separator =
               (if committed_text s = [] then []
                else if float_gt (float_sub now (last_final_time s)) (Finite 2 0)
                then [CHR 0x0A, CHR 0x0A]
                else '' '')
         in s\<lparr>committed_text := committed_text s @ separator @ tx,
              last_final_time := now,
              partial_text := JStr [],
              transcript_text := committed_text s @ separator @ tx\<rparr>)) \<and>
   committed_text
     (on_message (on_message init (turn_message ''hello'' True) (Finite 0 0))
        (turn_message ''world'' True) (Finite 1 0)) = ''hello world'' \<and>
   committed_text
     (on_message (on_message init (turn_message ''hello'' True) (Finite 0 0))
        (turn_message ''world'' True) (Finite 3 0)) = ''hello'' @ [CHR 0x0A, CHR 0x0A] @ ''world''"
proof -
  have general: "on_message s (Inr (JObj data)) now =
        (let separator =
               (if committed_text s = [] then []
                else if float_gt (float_sub now (last_final_time s)) (Finite 2 0)
                then [CHR 0x0A, CHR 0x0A]
                else '' '')
         in s\<lparr>committed_text := committed_text s @ separator @ tx,
              last_final_time := now,
              partial_text := JStr [],
              transcript_text := committed_text s @ separator @ tx\<rparr>)"
    if "map_of data ''type'' = Some (JStr ''Turn'')"
      and "map_of data ''transcript'' = Some (JStr tx)" and "tx \<noteq> []"
      and "truthy (py_get data ''turn_is_formatted'' (JBool False))"
    for s data tx now
    using that by (simp add: handler_defs)
  have short_gap: "committed_text
     (on_message (on_message init (turn_message ''hello'' True) (Finite 0 0))
        (turn_message ''world'' True) (Finite 1 0)) = ''hello world''"
    by (simp add: handler_defs turn_message_def init_def float_facts)
  have long_gap: "committed_text
     (on_message (on_message init (turn_message ''hello'' True) (Finite 0 0))
        (turn_message ''world'' True) (Finite 3 0)) = ''hello'' @ [CHR 0x0A, CHR 0x0A] @ ''world''"
    by (simp add: handler_defs turn_message_def init_def float_facts)
  from general short_gap long_gap show ?thesis by blast
qed

theorem final_nonempty_appends_witness:
  "on_message (init\<lparr>committed_text := ''hello'', last_final_time := Finite 10 0\<rparr>)
     (Inr (JObj [(''turn_is_formatted'', JBool True), (''transcript'', JStr ''world''),
                 (''type'', JStr ''Turn'')])) (Finite 25 (- 1)) =
   init\<lparr>committed_text := ''hello'' @ [CHR 0x0A, CHR 0x0A] @ ''world'',
        last_final_time := Finite 25 (- 1),
        partial_text := JStr [],
        transcript_text := ''hello'' @ [CHR 0x0A, CHR 0x0A] @ ''world''\<rparr>"
  using final_nonempty_appends [THEN conjunct1, rule_format,
      of "[(''turn_is_formatted'', JBool True), (''transcript'', JStr ''world''),
           (''type'', JStr ''Turn'')]" "''world''"
         "init\<lparr>committed_text := ''hello'', last_final_time := Finite 10 0\<rparr>"
         "Finite 25 (- 1)"]
  by (simp add: py_get_def init_def float_facts)

section \<open>A final without text only clears the draft\<close>

text \<open>
  Claim C2. A final \<^verbatim>\<open>Turn\<close> whose transcript is the empty string (given, or taken
  by default) sets \<^verbatim>\<open>partial_text\<close> to the empty string and leaves
  \<^verbatim>\<open>committed_text\<close>, \<^verbatim>\<open>last_final_time\<close> and every other field as they were; only
  the text shown is rebuilt, and it is the committed text. So the finals "hello" at 0,
  "" at 0.5 and "world" at 1 commit "hello world": the empty final has not moved
  \<^verbatim>\<open>last_final_time\<close>.
\<close>

theorem final_empty_clears_partial_only:
  "(\<forall>s data now.
      map_of data ''type'' = Some (JStr ''Turn'') \<and>
      py_get data ''transcript'' (JStr []) = JStr [] \<and>
      truthy (py_get data ''turn_is_formatted'' (JBool False)) \<longrightarrow>
      on_message s (Inr (JObj data)) now =
        s\<lparr>partial_text := JStr [], transcript_text := committed_text s\<rparr>) \<and>
   committed_text
     (on_message
        (on_message (on_message init (turn_message ''hello'' True) (Finite 0 0))
           (turn_message [] True) (Finite 1 (- 1)))
        (turn_message ''world'' True) (Finite 1 0)) = ''hello world''"
proof -
  have general: "on_message s (Inr (JObj data)) now =
        s\<lparr>partial_text := JStr [], transcript_text := committed_text s\<rparr>"
    if type: "map_of data ''type'' = Some (JStr ''Turn'')"
      and empty: "py_get data ''transcript'' (JStr []) = JStr []"
      and final: "truthy (py_get data ''turn_is_formatted'' (JBool False))"
    for s data now
  proof -
    have "on_turn s data now =
        (s\<lparr>partial_text := JStr [], transcript_text := committed_text s\<rparr>, None)"
      using empty final by (simp add: on_turn_def rebuild_def)
    moreover have "on_message_try s (Inr (JObj data)) now = on_turn s data now"
      using type by (simp add: on_message_try_def py_get_def)
    ultimately show ?thesis by (simp add: on_message_def)
  qed
  have example: "committed_text
     (on_message
        (on_message (on_message init (turn_message ''hello'' True) (Finite 0 0))
           (turn_message [] True) (Finite 1 (- 1)))
        (turn_message ''world'' True) (Finite 1 0)) = ''hello world''"
    by (simp add: handler_defs turn_message_def init_def float_facts)
  from general example show ?thesis by blast
qed

theorem final_empty_clears_partial_only_witness:
  "on_message
     (init\<lparr>committed_text := ''hello'', partial_text := JStr ''wor'',
           transcript_text := ''hello wor'', last_final_time := Finite 7 0\<rparr>)
     (Inr (JObj [(''type'', JStr ''Turn''), (''transcript'', JStr []),
                 (''turn_is_formatted'', JBool True)])) (Finite 20 0) =
   init\<lparr>committed_text := ''hello'', partial_text := JStr [],
        transcript_text := ''hello'', last_final_time := Finite 7 0\<rparr>"
  using final_empty_clears_partial_only [THEN conjunct1, rule_format,
      of "[(''type'', JStr ''Turn''), (''transcript'', JStr []),
           (''turn_is_formatted'', JBool True)]"
         "init\<lparr>committed_text := ''hello'', partial_text := JStr ''wor'',
           transcript_text := ''hello wor'', last_final_time := Finite 7 0\<rparr>" "Finite 20 0"]
  by (simp add: py_get_def init_def)

section \<open>The committed text only grows\<close>

lemma rebuild_committed [simp]: "committed_text (fst (rebuild s)) = committed_text s"
  by (simp add: rebuild_def split: json.splits)

lemma on_turn_committed:
  "committed_text (fst (on_turn s data now)) = committed_text s \<or>
   (\<exists>tx. tx \<noteq> [] \<and>
      committed_text (fst (on_turn s data now)) =
        committed_text s @
          (if committed_text s = [] then []
           else if float_gt (float_sub now (last_final_time s)) (Finite 2 0)
                then [CHR 0x0A, CHR 0x0A]
           else '' '') @ tx)"
  by (cases "py_get data ''transcript'' (JStr [])")
     (simp_all add: on_turn_def Let_def)

lemma on_message_committed_fst:
  "committed_text (on_message s loaded now) =
     committed_text (fst (on_message_try s loaded now))"
  by (simp add: on_message_def split: prod.splits option.splits)

lemma on_message_committed:
  "committed_text (on_message s loaded now) = committed_text s \<or>
   (\<exists>tx. tx \<noteq> [] \<and>
      committed_text (on_message s loaded now) =
        committed_text s @
          (if committed_text s = [] then []
           else if float_gt (float_sub now (last_final_time s)) (Finite 2 0)
                then [CHR 0x0A, CHR 0x0A]
           else '' '') @ tx)"
proof (cases loaded)
  case (Inl e)
  then show ?thesis by (simp add: on_message_committed_fst on_message_try_def)
next
  case (Inr v)
  show ?thesis
  proof (cases v)
    case (JObj data)
    have "on_message_try s loaded now = on_turn s data now \<or>
          committed_text (fst (on_message_try s loaded now)) = committed_text s"
      by (simp add: Inr JObj on_message_try_def Let_def)
    with on_turn_committed [of s data now] show ?thesis
      unfolding on_message_committed_fst by metis
  qed (simp_all add: on_message_committed_fst Inr on_message_try_def)
qed

lemma on_message_prefix:
  "prefix (committed_text s) (committed_text (on_message s loaded now))"
  using on_message_committed [of s loaded now] by (auto simp: prefix_def)

lemma on_messages_prefix:
  "prefix (committed_text s) (committed_text (on_messages s ms))"
proof (induction ms arbitrary: s)
  case Nil
  show ?case by simp
next
  case (Cons m ms)
  obtain loaded now where m: "m = (loaded, now)" by (cases m)
  have "prefix (committed_text s) (committed_text (on_message s loaded now))"
    by (rule on_message_prefix)
  also have "prefix \<dots> (committed_text (on_messages (on_message s loaded now) ms))"
    by (rule Cons.IH)
  finally show ?case by (simp add: m)
qed

text \<open>
  Claim C3. Whatever messages arrive, at whatever times (finals, partials, other types,
  payloads that do not decode), the committed text before them is a prefix of the
  committed text after them. One message leaves it as it was or appends the separator
  of the moment (chosen by the float test of line 107) followed by a non-empty text. Only a start of a session that is not
  running empties it.
\<close>

theorem committed_text_append_only:
  "prefix (committed_text s) (committed_text (on_messages s ms)) \<and>
   (committed_text (on_message s loaded now) = committed_text s \<or>
    (\<exists>tx. tx \<noteq> [] \<and>
       committed_text (on_message s loaded now) =
         committed_text s @
           (if committed_text s = [] then []
            else if float_gt (float_sub now (last_final_time s)) (Finite 2 0)
                then [CHR 0x0A, CHR 0x0A]
            else '' '') @ tx)) \<and>
   (\<not> is_running s \<longrightarrow>
      committed_text (fst (start_transcription s started dev)) = [])"
proof -
  have "\<not> is_running s \<longrightarrow>
      committed_text (fst (start_transcription s started dev)) = []"
    by (cases dev) (simp_all add: start_transcription_def)
  with on_messages_prefix [of s ms] on_message_committed [of s loaded now]
  show ?thesis by blast
qed

theorem committed_text_append_only_witness:
  "prefix ''hello''
     (committed_text
        (on_messages (init\<lparr>committed_text := ''hello''\<rparr>)
           [(turn_message ''wor'' False, Finite 1 0),
            (Inl (Raised ''Expecting value''), Finite 2 0),
            (turn_message ''world'' True, Finite 3 0)])) \<and>
   committed_text
     (fst (start_transcription (init\<lparr>committed_text := ''hello''\<rparr>) (Finite 4 0) OpenOk)) = []"
  using committed_text_append_only
    [where s = "init\<lparr>committed_text := ''hello''\<rparr>"
       and ms = "[(turn_message ''wor'' False, Finite 1 0),
                  (Inl (Raised ''Expecting value''), Finite 2 0),
                  (turn_message ''world'' True, Finite 3 0)]"
       and started = "Finite 4 0" and dev = OpenOk]
  by (simp add: init_def)

section \<open>The text shown\<close>

text \<open>
  Claim C4. After a \<^verbatim>\<open>Turn\<close> whose transcript is a string (given, or taken by
  default), \<^verbatim>\<open>partial_text\<close> is a string and the text shown, \<^verbatim>\<open>transcript_text\<close>, is
  the specification's \<open>displayText\<close> of the committed text and the draft reached: both
  joined by one space when both are non-empty, otherwise whichever is non-empty. It
  depends on nothing else.
\<close>

theorem transcript_text_is_displayText:
  assumes "map_of data ''type'' = Some (JStr ''Turn'')"
    and "py_get data ''transcript'' (JStr []) = JStr tx"
  shows "\<exists>p. partial_text (on_message s (Inr (JObj data)) now) = JStr p \<and>
             transcript_text (on_message s (Inr (JObj data)) now) =
               displayText (committed_text (on_message s (Inr (JObj data)) now)) p"
proof -
  have try_turn: "on_message_try s (Inr (JObj data)) now = on_turn s data now"
    using assms(1) by (simp add: on_message_try_def py_get_def)
  show ?thesis
  proof (cases "truthy (py_get data ''turn_is_formatted'' (JBool False))")
    case True
    then show ?thesis
      using assms(2)
      by (simp add: on_message_def try_turn on_turn_def rebuild_def displayText_def)
  next
    case False
    then show ?thesis
      using assms(2)
      by (simp add: on_message_def try_turn on_turn_def rebuild_def displayText_def)
  qed
qed

theorem transcript_text_is_displayText_witness:
  "\<exists>p. partial_text (on_message (init\<lparr>committed_text := ''hello''\<rparr>)
            (turn_message ''wor'' False) (Finite 1 0)) = JStr p \<and>
       transcript_text (on_message (init\<lparr>committed_text := ''hello''\<rparr>)
            (turn_message ''wor'' False) (Finite 1 0)) =
         displayText (committed_text (on_message (init\<lparr>committed_text := ''hello''\<rparr>)
            (turn_message ''wor'' False) (Finite 1 0))) p"
  using transcript_text_is_displayText
    [of "[(''type'', JStr ''Turn''), (''transcript'', JStr ''wor''),
          (''turn_is_formatted'', JBool False)]" "''wor''"
        "init\<lparr>committed_text := ''hello''\<rparr>" "Finite 1 0"]
  by (simp add: turn_message_def py_get_def)

section \<open>Writing the recorded audio\<close>

text \<open>
  Claim C5, as the code has it. When \<^verbatim>\<open>wave.open\<close> or a write on the open file
  raises while a non-empty buffer is being saved, \<^verbatim>\<open>save_wav_file\<close> prints the error
  and returns without raising, and the buffer is not cleared: \<^verbatim>\<open>recorded_frames\<close>
  holds the same chunks as before, as does every other field of the manager.
  (\<^verbatim>\<open>save_wav_file\<close> has no exceptional result: every call in it that can raise
  stands inside its \<^verbatim>\<open>try\<close>.)
\<close>

theorem failed_save_keeps_buffer:
  assumes "recorded_frames s \<noteq> []"
    and "outcome = WaveOpenFails e \<or> outcome = WaveWriteFails e"
  shows "save_wav_file s timestamp outcome = s\<lparr>stdout := stdout s @ [ErrorSavingWAV e]\<rparr> \<and>
         recorded_frames (save_wav_file s timestamp outcome) = recorded_frames s"
  using assms by (auto simp: save_wav_file_def)

theorem failed_save_keeps_buffer_witness:
  "save_wav_file (init\<lparr>recorded_frames := [[1, 2], [3]]\<rparr>) ''20240101_120000''
     (WaveWriteFails (Raised ''No space left on device'')) =
     init\<lparr>recorded_frames := [[1, 2], [3]],
          stdout := [ErrorSavingWAV (Raised ''No space left on device'')]\<rparr> \<and>
   recorded_frames
     (save_wav_file (init\<lparr>recorded_frames := [[1, 2], [3]]\<rparr>) ''20240101_120000''
        (WaveWriteFails (Raised ''No space left on device''))) = [[1, 2], [3]]"
  using failed_save_keeps_buffer
    [of "init\<lparr>recorded_frames := [[1, 2], [3]]\<rparr>"
        "WaveWriteFails (Raised ''No space left on device'')"
        "Raised ''No space left on device''" "''20240101_120000''"]
  by (simp add: init_def)

text \<open>
  The claim as the specification states it, that the buffer is empty when a failed save
  returns, does not hold: with one recorded chunk and \<^verbatim>\<open>wave.open\<close> raising, the
  chunk is still in the buffer afterwards.
\<close>

theorem failed_save_counterexample:
  "recorded_frames
     (save_wav_file (init\<lparr>recorded_frames := [[1, 2]]\<rparr>) ''20240101_120000''
        (WaveOpenFails (Raised ''Permission denied''))) \<noteq> []"
  by (simp add: save_wav_file_def init_def)

text \<open>
  Claim C8. On a manager with an open stream and nothing recorded, two passes of the
  capture loop that read \<open>c1\<close> and then \<open>c2\<close> leave exactly these two chunks, in this
  order. A save whose write succeeds then writes one file holding \<open>c1 @ c2\<close>, with the
  configured channel count, sample width and rate, and empties the buffer; a further
  save, whatever the writer would do, returns the state as it is and writes nothing.
\<close>

theorem recorder_round_trip:
  assumes "recorded_frames s = []" and "stream s \<noteq> None"
  shows "(let s1 = fst (stream_audio_iter s (Inr c1) None);
              s2 = fst (stream_audio_iter s1 (Inr c2) snd_err);
              s3 = save_wav_file s2 timestamp WaveOk
          in recorded_frames s2 = [c1, c2] \<and>
             saved_wavs s3 = saved_wavs s @
               [\<lparr>filename = ''recorded_audio_'' @ timestamp @ ''.wav'', nchannels = 1,
                 sampwidth = 2, framerate = 16000, frames = c1 @ c2\<rparr>] \<and>
             recorded_frames s3 = [] \<and>
             save_wav_file s3 timestamp' outcome' = s3)"
  using assms
  by (cases snd_err)
     (simp_all add: stream_audio_iter_def save_wav_file_def Let_def CHANNELS_def SAMPLE_RATE_def)

theorem recorder_round_trip_witness:
  "(let s1 = fst (stream_audio_iter (init\<lparr>stream := Some InputStream\<rparr>) (Inr [1, 2]) None);
        s2 = fst (stream_audio_iter s1 (Inr [3]) None);
        s3 = save_wav_file s2 ''20240101_120000'' WaveOk
    in recorded_frames s2 = [[1, 2], [3]] \<and>
       saved_wavs s3 =
         [\<lparr>filename = ''recorded_audio_20240101_120000.wav'', nchannels = 1,
           sampwidth = 2, framerate = 16000, frames = [1, 2, 3]\<rparr>] \<and>
       recorded_frames s3 = [] \<and>
       save_wav_file s3 ''20240101_120001'' WaveOk = s3)"
  using recorder_round_trip
    [of "init\<lparr>stream := Some InputStream\<rparr>" "[1, 2]" "[3]" None
        "''20240101_120000''" "''20240101_120001''" WaveOk]
  by (simp add: init_def)

section \<open>A start that cannot open the microphone\<close>

text \<open>
  The path the code handles: when \<^verbatim>\<open>self.audio.open\<close> (lines 175-181, inside the
  \<^verbatim>\<open>try\<close>) raises \<open>e\<close> on a manager that is not running, the method returns with
  the status set to the microphone error carrying \<open>e\<close> and with \<^verbatim>\<open>is_running\<close>
  false, and it has started no thread and touched none of the fields holding the
  threads, the websocket application and the stream.
\<close>

lemma open_failure_sets_status:
  assumes "\<not> is_running s"
  shows "snd (start_transcription s now (OpenFails e)) = None \<and>
         status (fst (start_transcription s now (OpenFails e))) = ErrorMicrofono e \<and>
         \<not> is_running (fst (start_transcription s now (OpenFails e))) \<and>
         spawned (fst (start_transcription s now (OpenFails e))) = spawned s \<and>
         audio_thread (fst (start_transcription s now (OpenFails e))) = audio_thread s \<and>
         ws_thread (fst (start_transcription s now (OpenFails e))) = ws_thread s \<and>
         ws_app (fst (start_transcription s now (OpenFails e))) = ws_app s \<and>
         stream (fst (start_transcription s now (OpenFails e))) = stream s"
  using assms by (simp add: start_transcription_def)

text \<open>
  Claim C6 says that a start whose audio device cannot be opened sets the status to a
  microphone error and leaves the session not running. The code does so on the path
  above and misses the other half of opening the device: the constructor
  \<^verbatim>\<open>pyaudio.PyAudio()\<close> at line 173 stands outside the \<^verbatim>\<open>try\<close>. When it raises \<open>e\<close>
  on a manager that is not running, \<open>e\<close> leaves \<^verbatim>\<open>start_transcription\<close>, the status
  is still the one of line 170 and \<^verbatim>\<open>is_running\<close> is still true, although no thread
  has been started.
\<close>

theorem constructor_failure_escapes:
  assumes "\<not> is_running s"
  shows "snd (start_transcription s now (PyAudioFails e)) = Some e \<and>
         status (fst (start_transcription s now (PyAudioFails e))) = IniciandoConexion \<and>
         is_running (fst (start_transcription s now (PyAudioFails e))) \<and>
         spawned (fst (start_transcription s now (PyAudioFails e))) = spawned s"
  using assms by (simp add: start_transcription_def)

theorem constructor_failure_escapes_witness:
  "start_transcription init (Finite 100 0) (PyAudioFails (Raised ''PortAudio not initialized'')) =
     (init\<lparr>last_final_time := Finite 100 0, status := IniciandoConexion,
           is_running := True\<rparr>, Some (Raised ''PortAudio not initialized''))"
  using constructor_failure_escapes [of init "Finite 100 0" "Raised ''PortAudio not initialized''"]
  by (simp add: start_transcription_def init_def)

text \<open>
  Claim C10. The same failed start has already discarded what the previous session
  left: when it returns, the committed text, the draft, the text shown and the buffer
  of recorded chunks are empty and the stop event is cleared, while the manager is not
  running.
\<close>

theorem failed_start_discards_transcript:
  assumes "\<not> is_running s"
  shows "committed_text (fst (start_transcription s now (OpenFails e))) = [] \<and>
         partial_text (fst (start_transcription s now (OpenFails e))) = JStr [] \<and>
         transcript_text (fst (start_transcription s now (OpenFails e))) = [] \<and>
         recorded_frames (fst (start_transcription s now (OpenFails e))) = [] \<and>
         \<not> stop_event (fst (start_transcription s now (OpenFails e))) \<and>
         \<not> is_running (fst (start_transcription s now (OpenFails e)))"
  using assms by (simp add: start_transcription_def)

theorem failed_start_discards_transcript_witness:
  "fst (start_transcription
          (init\<lparr>committed_text := ''hello world'', partial_text := JStr ''again'',
                transcript_text := ''hello world again'', recorded_frames := [[1, 2]],
                stop_event := True, status := DesconectadoArchivoGuardado\<rparr>)
          (Finite 100 0) (OpenFails (Raised ''Invalid input device''))) =
   init\<lparr>audio := Some PyAudio, last_final_time := Finite 100 0,
        status := ErrorMicrofono (Raised ''Invalid input device'')\<rparr>"
  using failed_start_discards_transcript
    [of "init\<lparr>committed_text := ''hello world'', partial_text := JStr ''again'',
                transcript_text := ''hello world again'', recorded_frames := [[1, 2]],
                stop_event := True, status := DesconectadoArchivoGuardado\<rparr>"
        "Finite 100 0" "Raised ''Invalid input device''"]
  by (simp add: start_transcription_def init_def)

section \<open>Payloads the handler does not understand\<close>

text \<open>
  Claim C7, as the code has it. A payload that \<^verbatim>\<open>json.loads\<close> rejects, and a payload
  that decodes to something other than an object, make the handler print one error line
  and change nothing else. An object whose \<^verbatim>\<open>type\<close> is missing or is none of
  \<^verbatim>\<open>Begin\<close>, \<^verbatim>\<open>Turn\<close>, \<^verbatim>\<open>Termination\<close> is ignored without a word: the state, the
  printed lines included, is exactly as before. In all three cases the committed text,
  the draft, \<^verbatim>\<open>last_final_time\<close>, \<^verbatim>\<open>is_running\<close> and the status are unchanged.
\<close>

theorem malformed_message_ignored:
  "(\<forall>s e now. on_message s (Inl e) now = s\<lparr>stdout := stdout s @ [ErrorHandlingMessage e]\<rparr>) \<and>
   (\<forall>s v now. (\<forall>data. v \<noteq> JObj data) \<longrightarrow>
      on_message s (Inr v) now = s\<lparr>stdout := stdout s @ [ErrorHandlingMessage AttributeError]\<rparr>) \<and>
   (\<forall>s data now.
      py_get data ''type'' JNull \<noteq> JStr ''Begin'' \<and>
      py_get data ''type'' JNull \<noteq> JStr ''Turn'' \<and>
      py_get data ''type'' JNull \<noteq> JStr ''Termination'' \<longrightarrow>
      on_message s (Inr (JObj data)) now = s)"
proof -
  have not_json: "on_message s (Inl e) now = s\<lparr>stdout := stdout s @ [ErrorHandlingMessage e]\<rparr>"
    for s e now
    by (simp add: on_message_def on_message_try_def)
  have not_dict: "on_message s (Inr v) now =
      s\<lparr>stdout := stdout s @ [ErrorHandlingMessage AttributeError]\<rparr>"
    if "\<forall>data. v \<noteq> JObj data" for s v now
    using that by (cases v) (simp_all add: on_message_def on_message_try_def)
  have unknown_type: "on_message s (Inr (JObj data)) now = s"
    if "py_get data ''type'' JNull \<noteq> JStr ''Begin''"
      and "py_get data ''type'' JNull \<noteq> JStr ''Turn''"
      and "py_get data ''type'' JNull \<noteq> JStr ''Termination''"
    for s data now
    using that by (simp add: on_message_def on_message_try_def)
  from not_json not_dict unknown_type show ?thesis by blast
qed

theorem malformed_message_ignored_witness:
  "on_message init (Inr (JArr [JInt 1])) (Finite 5 0) =
     init\<lparr>stdout := [ErrorHandlingMessage AttributeError]\<rparr> \<and>
   on_message init (Inr (JObj [(''kind'', JStr ''Turn'')])) (Finite 5 0) = init"
  using
    malformed_message_ignored [THEN conjunct2, THEN conjunct1, rule_format,
      of "JArr [JInt 1]" init "Finite 5 0"]
    malformed_message_ignored [THEN conjunct2, THEN conjunct2, rule_format,
      of "[(''kind'', JStr ''Turn'')]" init "Finite 5 0"]
  by (simp add: py_get_def init_def)

text \<open>
  The claim as the specification states it, that every unexpected payload is logged,
  does not hold for its own example of an unknown type: after
  \<^verbatim>\<open>{"type": "Foo"}\<close> on the initial state nothing has been printed.
\<close>

theorem unknown_type_counterexample:
  "stdout (on_message init (Inr (JObj [(''type'', JStr ''Foo'')])) (Finite 0 0)) = []"
  by (simp add: handler_defs init_def)

section \<open>Fields a Turn message leaves out\<close>

lemma py_get_append_absent:
  "map_of data k = None \<Longrightarrow>
     py_get (data @ [(k, v)]) k' d = (if k' = k then v else py_get data k' d)"
  by (simp add: py_get_def map_add_def split: option.splits)

text \<open>
  Claim C9. A \<^verbatim>\<open>Turn\<close> without the key \<^verbatim>\<open>transcript\<close> is handled exactly as the same
  message with \<^verbatim>\<open>transcript\<close> set to the empty string, and one without
  \<^verbatim>\<open>turn_is_formatted\<close> exactly as the same message with it set to false. A
  \<^verbatim>\<open>Turn\<close> with neither key is a partial with empty text: the draft becomes the empty
  string, the text shown becomes the committed text, and nothing else changes; in
  particular the committed text and \<^verbatim>\<open>last_final_time\<close> stay and no error is printed.
\<close>

theorem turn_missing_fields_default:
  "(\<forall>s data now.
      map_of data ''type'' = Some (JStr ''Turn'') \<and> map_of data ''transcript'' = None \<longrightarrow>
      on_message s (Inr (JObj data)) now =
        on_message s (Inr (JObj (data @ [(''transcript'', JStr [])]))) now) \<and>
   (\<forall>s data now.
      map_of data ''type'' = Some (JStr ''Turn'') \<and> map_of data ''turn_is_formatted'' = None \<longrightarrow>
      on_message s (Inr (JObj data)) now =
        on_message s (Inr (JObj (data @ [(''turn_is_formatted'', JBool False)]))) now) \<and>
   (\<forall>s data now.
      map_of data ''type'' = Some (JStr ''Turn'') \<and> map_of data ''transcript'' = None \<and>
      map_of data ''turn_is_formatted'' = None \<longrightarrow>
      on_message s (Inr (JObj data)) now =
        s\<lparr>partial_text := JStr [], transcript_text := committed_text s\<rparr>)"
proof -
  have no_transcript: "on_message s (Inr (JObj data)) now =
        on_message s (Inr (JObj (data @ [(''transcript'', JStr [])]))) now"
    if "map_of data ''type'' = Some (JStr ''Turn'')" and absent: "map_of data ''transcript'' = None"
    for s data now
  proof -
    have "on_turn s (data @ [(''transcript'', JStr [])]) now = on_turn s data now"
      using absent by (simp add: on_turn_def py_get_append_absent) (simp add: py_get_def)
    moreover have "py_get data ''type'' JNull = JStr ''Turn''"
      using that(1) by (simp add: py_get_def)
    ultimately show ?thesis
      by (simp add: on_message_def on_message_try_def py_get_append_absent [OF absent])
  qed
  have no_flag: "on_message s (Inr (JObj data)) now =
        on_message s (Inr (JObj (data @ [(''turn_is_formatted'', JBool False)]))) now"
    if "map_of data ''type'' = Some (JStr ''Turn'')"
      and absent: "map_of data ''turn_is_formatted'' = None"
    for s data now
  proof -
    have "on_turn s (data @ [(''turn_is_formatted'', JBool False)]) now = on_turn s data now"
      using absent by (simp add: on_turn_def py_get_append_absent) (simp add: py_get_def)
    moreover have "py_get data ''type'' JNull = JStr ''Turn''"
      using that(1) by (simp add: py_get_def)
    ultimately show ?thesis
      by (simp add: on_message_def on_message_try_def py_get_append_absent [OF absent])
  qed
  have neither: "on_message s (Inr (JObj data)) now =
        s\<lparr>partial_text := JStr [], transcript_text := committed_text s\<rparr>"
    if "map_of data ''type'' = Some (JStr ''Turn'')" and "map_of data ''transcript'' = None"
      and "map_of data ''turn_is_formatted'' = None"
    for s data now
    using that by (simp add: handler_defs)
  from no_transcript no_flag neither show ?thesis by blast
qed

theorem turn_missing_fields_default_witness:
  "on_message
     (init\<lparr>committed_text := ''hello'', partial_text := JStr ''wor'',
           transcript_text := ''hello wor'', last_final_time := Finite 7 0\<rparr>)
     (Inr (JObj [(''type'', JStr ''Turn'')])) (Finite 20 0) =
   init\<lparr>committed_text := ''hello'', partial_text := JStr [],
        transcript_text := ''hello'', last_final_time := Finite 7 0\<rparr>"
  using turn_missing_fields_default [THEN conjunct2, THEN conjunct2, rule_format,
      of "[(''type'', JStr ''Turn'')]"
         "init\<lparr>committed_text := ''hello'', partial_text := JStr ''wor'',
           transcript_text := ''hello wor'', last_final_time := Finite 7 0\<rparr>" "Finite 20 0"]
  by (simp add: init_def)

end
